theory Spec2Isabelle
  imports Main "HOL-Library.AList"
begin

section \<open>Values and property bags\<close>

text \<open>
  The values stored in a projection's property bags are JSON values. Numbers are kept as
  integers; an absent property (JavaScript \<^verbatim>\<open>undefined\<close>) is the absence of the key.
  An object is the list of its own properties in insertion order.
\<close>

datatype json =
    JNull
  | JBool bool
  | JNum int
  | JStr string
  | JArr "json list"
  | JObj "(string \<times> json) list"

type_synonym bag = "(string \<times> json) list"

text \<open>
  Modelled from the spec: \<^verbatim>\<open>deepEqual\<close> of \<^verbatim>\<open>util.js\<close>, which is not among the sources.
  The spec's "deeply equal" is the usual deep comparison: primitives by value, arrays by
  length and position, objects by the number of keys and by key (the order of the keys
  does not matter).
\<close>

fun deepEqual :: "json \<Rightarrow> json \<Rightarrow> bool" where
  "deepEqual (JArr xs) (JArr ys) = (length xs = length ys \<and> list_all2 deepEqual xs ys)"
| "deepEqual (JObj a) (JObj b) =
     (length a = length b \<and>
      list_all (\<lambda>(k, v). case map_of b k of None \<Rightarrow> False | Some w \<Rightarrow> deepEqual v w) a)"
| "deepEqual x y = (x = y)"

text \<open>\<^verbatim>\<open>hasOwnProperty(obj, prop)\<close> and \<^verbatim>\<open>obj[prop]\<close>.\<close>

definition hasOwnProperty :: "bag \<Rightarrow> string \<Rightarrow> bool" where
  "hasOwnProperty obj prop = (map_of obj prop \<noteq> None)"

text \<open>The object spread \<^verbatim>\<open>{...a, ...b}\<close>: the properties of \<open>a\<close>, then those of \<open>b\<close>,
  a key of \<open>b\<close> already in \<open>a\<close> keeping its place and taking the value of \<open>b\<close>.\<close>

definition spread :: "bag \<Rightarrow> bag \<Rightarrow> bag" where
  "spread a b = fold (\<lambda>(k, v). AList.update k v) b a"

text \<open>JavaScript truthiness of a property read (\<open>None\<close> is \<^verbatim>\<open>undefined\<close>).\<close>

fun truthy :: "json option \<Rightarrow> bool" where
  "truthy None = False"
| "truthy (Some JNull) = False"
| "truthy (Some (JBool b)) = b"
| "truthy (Some (JNum n)) = (n \<noteq> 0)"
| "truthy (Some (JStr s)) = (s \<noteq> [])"
| "truthy (Some (JArr xs)) = True"
| "truthy (Some (JObj kvs)) = True"

text \<open>\<^verbatim>\<open>obj.prop != null\<close>: the property is present and is not \<^verbatim>\<open>null\<close>.\<close>

definition notNull :: "bag \<Rightarrow> string \<Rightarrow> bool" where
  "notNull obj prop = (case map_of obj prop of None \<Rightarrow> False | Some v \<Rightarrow> v \<noteq> JNull)"

section \<open>Name scope\<close>

text \<open>
  \<^verbatim>\<open>class NameMap\<close>. Its \<^verbatim>\<open>map\<close> is a plain object \<^verbatim>\<open>{}\<close>, so the reads \<^verbatim>\<open>this.map[key]\<close> and
  \<^verbatim>\<open>key in this.map\<close> see the object's own entries and, behind them, the members that every
  plain object inherits from \<^verbatim>\<open>Object.prototype\<close>. The map is the list of its own entries.
  A read yields the name of an own entry, else the inherited member of that name (a
  function; for \<^verbatim>\<open>__proto__\<close> the prototype object), else \<^verbatim>\<open>undefined\<close> (\<open>None\<close>).
\<close>

type_synonym NameMap = "(string \<times> string) list"

definition OBJECT_PROTOTYPE_MEMBERS :: "string list" where
  "OBJECT_PROTOTYPE_MEMBERS =
     [''constructor'', ''__defineGetter__'', ''__defineSetter__'', ''hasOwnProperty'',
      ''__lookupGetter__'', ''__lookupSetter__'', ''isPrototypeOf'', ''propertyIsEnumerable'',
      ''toString'', ''valueOf'', ''__proto__'', ''toLocaleString'']"

datatype NameValue = Name string | InheritedMember string

definition NameMap_new :: NameMap where
  "NameMap_new = []"

text \<open>\<^verbatim>\<open>this.map[key]\<close>.\<close>

definition NameMap_read :: "NameMap \<Rightarrow> string \<Rightarrow> NameValue option" where
  "NameMap_read m key =
     (case map_of m key of
        Some v \<Rightarrow> Some (Name v)
      | None \<Rightarrow> if key \<in> set OBJECT_PROTOTYPE_MEMBERS then Some (InheritedMember key) else None)"

text \<open>JavaScript truthiness of what a read yields: a name is truthy unless it is the empty
  string, an inherited member always.\<close>

fun truthyName :: "NameValue option \<Rightarrow> bool" where
  "truthyName None = False"
| "truthyName (Some (Name s)) = (s \<noteq> [])"
| "truthyName (Some (InheritedMember k)) = True"

text \<open>\<^verbatim>\<open>this.map[key] = value\<close> with a string value: it writes an own entry, except that,
  without an own entry of that name, assigning a string to \<^verbatim>\<open>__proto__\<close> reaches the
  inherited setter, which ignores it.\<close>

definition NameMap_assign :: "NameMap \<Rightarrow> string \<Rightarrow> string \<Rightarrow> NameMap" where
  "NameMap_assign m key v =
     (if map_of m key = None \<and> key = ''__proto__'' then m else AList.update key v m)"

text \<open>\<^verbatim>\<open>has\<close>: \<^verbatim>\<open>key in this.map\<close>; \<^verbatim>\<open>get\<close>: \<^verbatim>\<open>this.map[key]\<close>; \<^verbatim>\<open>set\<close>:
  \<^verbatim>\<open>this.map[key] = value\<close>.\<close>

definition NameMap_has :: "NameMap \<Rightarrow> string \<Rightarrow> bool" where
  "NameMap_has m key = (map_of m key \<noteq> None \<or> key \<in> set OBJECT_PROTOTYPE_MEMBERS)"

definition NameMap_get :: "NameMap \<Rightarrow> string \<Rightarrow> NameValue option" where
  "NameMap_get m key = NameMap_read m key"

definition NameMap_set :: "NameMap \<Rightarrow> string \<Rightarrow> string \<Rightarrow> NameMap" where
  "NameMap_set m key v = NameMap_assign m key v"

text \<open>\<^verbatim>\<open>rename\<close>: \<^verbatim>\<open>if (this.map[oldName]) { this.map[oldName] = newName; }\<close>. The test is
  the truthiness of the read, so an own entry holding the empty string is not
  overwritten, and an inherited member passes the test.\<close>

definition NameMap_rename :: "NameMap \<Rightarrow> string \<Rightarrow> string \<Rightarrow> NameMap" where
  "NameMap_rename m oldName newName =
     (if truthyName (NameMap_read m oldName) then NameMap_assign m oldName newName else m)"

section \<open>Projection components\<close>

text \<open>A signal reference \<^verbatim>\<open>{signal: s}\<close>; the signal is what the name map yielded for it
  (\<open>None\<close> when that was \<^verbatim>\<open>undefined\<close>).\<close>

datatype signalRef = SignalRef (signal: "NameValue option")

text \<open>An entry of a fit-data list, \<^verbatim>\<open>(string | SignalRef)[]\<close>: the signal of a geometry
  field, or the name of a dataset.\<close>

datatype dataRef = DataSignal string | DataName string

text \<open>
  \<^verbatim>\<open>class ProjectionComponent extends Split\<close>. The field \<open>size_signals\<close> is the source's
  \<^verbatim>\<open>size\<close> (an entry \<open>None\<close> is \<^verbatim>\<open>null\<close>, which \<^verbatim>\<open>getSizeSignalRef\<close> can return);
  \<open>size_signals\<close> and \<open>data\<close> are \<open>None\<close> when the constructor received \<^verbatim>\<open>undefined\<close>.
\<close>

record ProjectionComponent =
  explicit :: bag
  implicit :: bag
  specifiedProjection :: bag
  size_signals :: "signalRef option list option"
  data :: "dataRef list option"
  merged :: bool

text \<open>The constructor: \<^verbatim>\<open>super({...specifiedProjection}, {name})\<close>, \<^verbatim>\<open>merged = false\<close>.\<close>

definition new_ProjectionComponent ::
  "string \<Rightarrow> bag \<Rightarrow> signalRef option list option \<Rightarrow> dataRef list option \<Rightarrow> ProjectionComponent"
where
  "new_ProjectionComponent name sp sz d =
     \<lparr> explicit = spread [] sp, implicit = [(''name'', JStr name)], specifiedProjection = sp,
       size_signals = sz, data = d, merged = False \<rparr>"

text \<open>\<^verbatim>\<open>get isFit() { return !!this.data; }\<close>: an empty list is truthy.\<close>

definition isFit :: "ProjectionComponent \<Rightarrow> bool" where
  "isFit c = (data c \<noteq> None)"

text \<open>
  Modelled from the spec: \<^verbatim>\<open>Split.get\<close> and \<^verbatim>\<open>Split.set\<close> of \<^verbatim>\<open>split.js\<close>, which is not among
  the sources. \<open>get(key)\<close> returns \<open>explicit[key]\<close> if present, else \<open>implicit[key]\<close>;
  \<open>set(key, value, isExplicit)\<close> writes into the corresponding layer.
\<close>

definition Split_get :: "ProjectionComponent \<Rightarrow> string \<Rightarrow> json option" where
  "Split_get c key =
     (case map_of (explicit c) key of Some v \<Rightarrow> Some v | None \<Rightarrow> map_of (implicit c) key)"

definition Split_set :: "ProjectionComponent \<Rightarrow> string \<Rightarrow> json \<Rightarrow> bool \<Rightarrow> ProjectionComponent" where
  "Split_set c key v isExplicit =
     (if isExplicit then c\<lparr>explicit := AList.update key v (explicit c)\<rparr>
      else c\<lparr>implicit := AList.update key v (implicit c)\<rparr>)"

text \<open>\<^verbatim>\<open>PROJECTION_PROPERTIES\<close> of \<^verbatim>\<open>projection.ts\<close>.\<close>

definition PROJECTION_PROPERTIES :: "string list" where
  "PROJECTION_PROPERTIES =
     [''type'', ''clipAngle'', ''clipExtent'', ''center'', ''rotate'', ''precision'',
      ''reflectX'', ''reflectY'', ''coefficient'', ''distance'', ''fraction'', ''lobes'',
      ''parallel'', ''radius'', ''ratio'', ''spacing'', ''tilt'']"

text \<open>\<^verbatim>\<open>deepEqual\<close> on two property reads and on two size descriptors. A size descriptor is
  an array of one-key objects, so its deep comparison is equality of the typed value.\<close>

fun deepEqualRead :: "json option \<Rightarrow> json option \<Rightarrow> bool" where
  "deepEqualRead None None = True"
| "deepEqualRead (Some v) (Some w) = deepEqual v w"
| "deepEqualRead a b = False"

definition deepEqualSize ::
  "signalRef option list option \<Rightarrow> signalRef option list option \<Rightarrow> bool" where
  "deepEqualSize a b = (a = b)"

text \<open>The callback given to \<^verbatim>\<open>every(PROJECTION_PROPERTIES, ...)\<close> in
  \<^verbatim>\<open>mergeIfNoConflict\<close>, and the conjunction that \<^verbatim>\<open>every\<close> computes (\<^verbatim>\<open>every\<close> of
  \<^verbatim>\<open>util.js\<close> holds when the callback holds for each element, in order).\<close>

definition propertyShared :: "ProjectionComponent \<Rightarrow> ProjectionComponent \<Rightarrow> string \<Rightarrow> bool" where
  "propertyShared first second prop =
     (if \<not> hasOwnProperty (explicit first) prop \<and> \<not> hasOwnProperty (explicit second) prop
      then True
      else if hasOwnProperty (explicit first) prop \<and> hasOwnProperty (explicit second) prop \<and>
              deepEqualRead (Split_get first prop) (Split_get second prop)
      then True
      else False)"

definition allPropertiesShared :: "ProjectionComponent \<Rightarrow> ProjectionComponent \<Rightarrow> bool" where
  "allPropertiesShared first second = list_all (propertyShared first second) PROJECTION_PROPERTIES"

text \<open>\<^verbatim>\<open>mergeIfNoConflict\<close>; \<open>None\<close> is the \<^verbatim>\<open>null\<close> it returns on a conflict.\<close>

definition mergeIfNoConflict ::
  "ProjectionComponent \<Rightarrow> ProjectionComponent \<Rightarrow> ProjectionComponent option" where
  "mergeIfNoConflict first second =
     (if deepEqualSize (size_signals first) (size_signals second) then
        (if allPropertiesShared first second then Some first
         else if deepEqual (JObj (explicit first)) (JObj []) then Some second
         else if deepEqual (JObj (explicit second)) (JObj []) then Some first
         else None)
      else None)"

section \<open>Models\<close>

text \<open>\<^verbatim>\<open>ModelType\<close>: \<^verbatim>\<open>'unit' | 'layer' | 'concat' | 'facet'\<close>.\<close>

datatype ModelType = UnitModel | LayerModel | ConcatModel | FacetModel

text \<open>The channels read by the projection code (\<^verbatim>\<open>channel.ts\<close>).\<close>

datatype Channel = LONGITUDE | LATITUDE | LONGITUDE2 | LATITUDE2 | SHAPE

text \<open>
  Modelled from the spec: the per-channel accessors of \<^verbatim>\<open>channeldef.js\<close> and
  \<^verbatim>\<open>encoding.js\<close>, which are not among the sources. They answer whether a channel carries
  a field (with its name and, when typed, its type), a datum or a constant value; the
  datum and the value are kept as the text that \<^verbatim>\<open>`${...}`\<close> renders.
\<close>

datatype ChannelDef =
    FieldDef (field: string) (ftype: "string option")
  | DatumDef (datum: string)
  | ValueDef (val: string)

fun getFieldOrDatumDef :: "ChannelDef option \<Rightarrow> ChannelDef option" where
  "getFieldOrDatumDef (Some (FieldDef f t)) = Some (FieldDef f t)"
| "getFieldOrDatumDef (Some (DatumDef d)) = Some (DatumDef d)"
| "getFieldOrDatumDef x = None"

fun isFieldOrDatumDef :: "ChannelDef option \<Rightarrow> bool" where
  "isFieldOrDatumDef (Some (FieldDef f t)) = True"
| "isFieldOrDatumDef (Some (DatumDef d)) = True"
| "isFieldOrDatumDef x = False"

fun isFieldDef :: "ChannelDef option \<Rightarrow> bool" where
  "isFieldDef (Some (FieldDef f t)) = True"
| "isFieldDef x = False"

text \<open>The constants \<^verbatim>\<open>GEOJSON\<close> of \<^verbatim>\<open>type.js\<close> and \<^verbatim>\<open>GEOSHAPE\<close> of \<^verbatim>\<open>mark.js\<close>, and
  \<^verbatim>\<open>GEOPOSITION_CHANNELS\<close>, the keys of \<^verbatim>\<open>GEO_POSIITON_CHANNEL_INDEX\<close> in \<^verbatim>\<open>channel.ts\<close>.\<close>

definition GEOJSON :: string where
  "GEOJSON = ''geojson''"

definition GEOSHAPE :: string where
  "GEOSHAPE = ''geoshape''"

definition GEOPOSITION_CHANNELS :: "Channel list" where
  "GEOPOSITION_CHANNELS = [LONGITUDE, LONGITUDE2, LATITUDE, LATITUDE2]"

text \<open>
  The state of one \<^verbatim>\<open>Model\<close> object, as far as the projection code reads and writes it.
  \<open>mark\<close>, \<open>encoding\<close> and \<open>specifiedProjectionU\<close> (the source's
  \<^verbatim>\<open>UnitModel.specifiedProjection\<close>, \<open>None\<close> when the spec has none) matter for a unit
  model only; \<open>config_projection\<close> is \<^verbatim>\<open>model.config.projection\<close>; \<open>projection\<close> is
  \<^verbatim>\<open>model.component.projection\<close>; \<open>outputNodeRefCounts\<close> and \<open>outputNodes\<close> are those of
  \<^verbatim>\<open>model.component.data\<close>, an output node being known by the source name that its
  \<^verbatim>\<open>getSource()\<close> returns. \<open>facetSizeRef\<close> stands for the first branch of
  \<^verbatim>\<open>getSizeSignalRef\<close>, which reads scale components: it holds, for a layout size type,
  what that branch returns (\<open>None\<close> for its \<^verbatim>\<open>return null\<close>), and has no entry when the
  branch is not taken.
\<close>

record ModelState =
  mtype :: ModelType
  name :: string
  mark :: string
  encoding :: "(Channel \<times> ChannelDef) list"
  specifiedProjectionU :: "bag option"
  config_projection :: "bag option"
  facetSizeRef :: "(string \<times> signalRef option) list"
  signalNameMap :: NameMap
  projectionNameMap :: NameMap
  projection :: "ProjectionComponent option"
  outputNodeRefCounts :: "(string \<times> nat) list"
  outputNodes :: "(string \<times> string) list"

datatype Model = Model (self: ModelState) (children: "Model list")

text \<open>
  The helpers whose code is not among the sources and which the spec only names are
  parameters of the model: \<^verbatim>\<open>varName\<close> (the name-sanitising formatter),
  \<^verbatim>\<open>replaceExprRef\<close> (\<open>None\<close> is \<^verbatim>\<open>undefined\<close>) and \<^verbatim>\<open>Split.combine\<close>. So is
  \<open>memberText\<close>, the text that JavaScript renders for the \<^verbatim>\<open>Object.prototype\<close> member of a
  given name when it is joined into a string (the source text of a built-in function is
  left to the implementation).
\<close>

record Collab =
  varName :: "string \<Rightarrow> string"
  replaceExprRef :: "bag option \<Rightarrow> bag option"
  combine :: "ProjectionComponent \<Rightarrow> bag"
  memberText :: "string \<Rightarrow> string"

datatype error = TypeError | FitSourceMissing

text \<open>\<^verbatim>\<open>{...a, ...b}\<close> where either side may be \<^verbatim>\<open>undefined\<close>.\<close>

definition bagOf :: "bag option \<Rightarrow> bag" where
  "bagOf b = (case b of None \<Rightarrow> [] | Some x \<Rightarrow> x)"

text \<open>Modelled from the spec: the type guards of \<^verbatim>\<open>model.js\<close>, which is not among the
  sources; a node is a tagged variant, and a guard tests the tag.\<close>

definition isUnitModel :: "ModelState \<Rightarrow> bool" where
  "isUnitModel n = (mtype n = UnitModel)"



text \<open>\<^verbatim>\<open>Model.getName\<close>: \<^verbatim>\<open>varName((this.name ? `${this.name}_` : '') + text)\<close>.\<close>

definition getName :: "Collab \<Rightarrow> ModelState \<Rightarrow> string \<Rightarrow> string" where
  "getName c n text = varName c ((if name n \<noteq> [] then name n @ ''_'' else []) @ text)"

text \<open>\<^verbatim>\<open>Model.requestDataName\<close> for \<^verbatim>\<open>DataSourceType.Main\<close>, whose data name
  (\<^verbatim>\<open>getDataName\<close>) is \<^verbatim>\<open>getName\<close> of the lower-cased member name, \<^verbatim>\<open>'main'\<close>: it counts
  one more reference and returns the full name.\<close>

definition requestDataName_Main :: "Collab \<Rightarrow> ModelState \<Rightarrow> string \<times> ModelState" where
  "requestDataName_Main c n =
     (let fullName = getName c n ''main'';
          count = (case map_of (outputNodeRefCounts n) fullName of None \<Rightarrow> 0 | Some k \<Rightarrow> k)
      in (fullName,
          n\<lparr>outputNodeRefCounts := AList.update fullName (count + 1) (outputNodeRefCounts n)\<rparr>))"

text \<open>\<^verbatim>\<open>Model.getSizeSignalRef\<close>.\<close>

definition getSizeSignalRef :: "Collab \<Rightarrow> ModelState \<Rightarrow> string \<Rightarrow> signalRef option" where
  "getSizeSignalRef c n layoutSizeType =
     (case map_of (facetSizeRef n) layoutSizeType of
        Some r \<Rightarrow> r
      | None \<Rightarrow> Some (SignalRef (NameMap_get (signalNameMap n) (getName c n layoutSizeType))))"

text \<open>\<^verbatim>\<open>Model.lookupDataSource\<close>.\<close>

definition lookupDataSource :: "ModelState \<Rightarrow> string \<Rightarrow> string" where
  "lookupDataSource n nm = (case map_of (outputNodes n) nm of None \<Rightarrow> nm | Some src \<Rightarrow> src)"

text \<open>\<^verbatim>\<open>Model.renameProjection\<close> and \<^verbatim>\<open>Model.projectionName\<close>.\<close>

definition renameProjection :: "ModelState \<Rightarrow> string \<Rightarrow> string \<Rightarrow> ModelState" where
  "renameProjection n oldName newName =
     n\<lparr>projectionNameMap := NameMap_rename (projectionNameMap n) oldName newName\<rparr>"

definition projectionName :: "Collab \<Rightarrow> ModelState \<Rightarrow> bool \<Rightarrow> NameValue option" where
  "projectionName c n parse =
     (if parse then Some (Name (getName c n ''projection''))
      else if (case projection n of None \<Rightarrow> False | Some p \<Rightarrow> \<not> merged p) \<or>
              NameMap_has (projectionNameMap n) (getName c n ''projection'')
      then NameMap_get (projectionNameMap n) (getName c n ''projection'')
      else None)"

text \<open>\<^verbatim>\<open>UnitModel.hasProjection\<close>.\<close>

definition hasProjection :: "ModelState \<Rightarrow> bool" where
  "hasProjection n =
     (mark n = GEOSHAPE \<or>
      list_ex (\<lambda>channel. isFieldOrDatumDef (map_of (encoding n) channel)) GEOPOSITION_CHANNELS)"

section \<open>Parsing projections\<close>

text \<open>Decimal text of a natural number, for \<^verbatim>\<open>`geojson_${data.length}`\<close>.\<close>

fun showNat :: "nat \<Rightarrow> string" where
  "showNat n =
     (if n < 10 then [''0123456789'' ! n] else showNat (n div 10) @ [''0123456789'' ! (n mod 10)])"

text \<open>\<^verbatim>\<open>Array.prototype.join\<close> on an array of strings.\<close>

fun joinWith :: "string \<Rightarrow> string list \<Rightarrow> string" where
  "joinWith sep [] = []"
| "joinWith sep [x] = x"
| "joinWith sep (x # y # ys) = x @ sep @ joinWith sep (y # ys)"

text \<open>
  The property key that a value read by \<^verbatim>\<open>projection.get('name')\<close> denotes when it indexes
  the name map (the \<^verbatim>\<open>String(...)\<close> conversion). The name is a string by its type; the
  other cases are written out for totality, an integer in decimal.
\<close>

fun jsString :: "json \<Rightarrow> string" where
  "jsString JNull = ''null''"
| "jsString (JBool b) = (if b then ''true'' else ''false'')"
| "jsString (JNum i) = (if i < 0 then ''-'' @ showNat (nat (- i)) else showNat (nat i))"
| "jsString (JStr s) = s"
| "jsString (JArr xs) = joinWith '','' (map (\<lambda>x. if x = JNull then [] else jsString x) xs)"
| "jsString (JObj kvs) = ''[object Object]''"

definition propertyKey :: "json option \<Rightarrow> string" where
  "propertyKey v = (case v of None \<Rightarrow> ''undefined'' | Some x \<Rightarrow> jsString x)"

text \<open>
  \<^verbatim>\<open>gatherFitData\<close>. \<^verbatim>\<open>channelHasField(SHAPE)\<close> holds when the channel carries a field;
  \<^verbatim>\<open>typedFieldDef(SHAPE)\<close> is \<^verbatim>\<open>null\<close> when that field has no type, and reading \<^verbatim>\<open>.type\<close>
  of it raises.
\<close>

definition pushGeojsonIf :: "Collab \<Rightarrow> ModelState \<Rightarrow> bool \<Rightarrow> dataRef list \<Rightarrow> dataRef list" where
  "pushGeojsonIf c n cond d =
     (if cond then d @ [DataSignal (getName c n (''geojson_'' @ showNat (length d)))] else d)"

definition gatherFitData :: "Collab \<Rightarrow> ModelState \<Rightarrow> error + (dataRef list \<times> ModelState)" where
  "gatherFitData c n =
     (let d1 = pushGeojsonIf c n
                 (getFieldOrDatumDef (map_of (encoding n) LONGITUDE) \<noteq> None \<or>
                  getFieldOrDatumDef (map_of (encoding n) LATITUDE) \<noteq> None) [];
          d2 = pushGeojsonIf c n
                 (getFieldOrDatumDef (map_of (encoding n) LONGITUDE2) \<noteq> None \<or>
                  getFieldOrDatumDef (map_of (encoding n) LATITUDE2) \<noteq> None) d1
      in case (if isFieldDef (map_of (encoding n) SHAPE)
               then (case map_of (encoding n) SHAPE of
                       Some (FieldDef f (Some t)) \<Rightarrow> Inr (pushGeojsonIf c n (t = GEOJSON) d2)
                     | _ \<Rightarrow> Inl TypeError)
               else Inr d2) of
           Inl e \<Rightarrow> Inl e
         | Inr d3 \<Rightarrow>
             if length d3 = 0
             then (case requestDataName_Main c n of (fullName, n') \<Rightarrow> Inr (d3 @ [DataName fullName], n'))
             else Inr (d3, n))"

text \<open>\<^verbatim>\<open>parseUnitProjection\<close>: the component, or \<open>None\<close> for \<^verbatim>\<open>undefined\<close>, with the model
  state after the call.\<close>

definition parseUnitProjection ::
  "Collab \<Rightarrow> ModelState \<Rightarrow> error + (ModelState \<times> ProjectionComponent option)" where
  "parseUnitProjection c n =
     (if hasProjection n then
        (let proj = replaceExprRef c (specifiedProjectionU n);
             fit = (\<not> (case proj of None \<Rightarrow> False
                        | Some p \<Rightarrow> notNull p ''scale'' \<or> notNull p ''translate''));
             sz = (if fit then Some [getSizeSignalRef c n ''width'', getSizeSignalRef c n ''height'']
                   else None)
         in case (if fit
                  then (case gatherFitData c n of Inl e \<Rightarrow> Inl e | Inr (d, n') \<Rightarrow> Inr (Some d, n'))
                  else Inr (None, n)) of
              Inl e \<Rightarrow> Inl e
            | Inr (d, n') \<Rightarrow>
                (let projComp = new_ProjectionComponent (getName c n ''projection'')
                                  (spread (bagOf (replaceExprRef c (config_projection n))) (bagOf proj))
                                  sz d
                 in Inr (n', Some (if \<not> truthy (Split_get projComp ''type'')
                                   then Split_set projComp ''type'' (JStr ''equalEarth'') False
                                   else projComp))))
      else Inr (n, None))"

text \<open>
  The reduction \<^verbatim>\<open>every(model.children, ...)\<close> of \<^verbatim>\<open>parseNonUnitProjections\<close> over the
  children's components, with the captured variable \<^verbatim>\<open>nonUnitProjection\<close> as accumulator:
  the result is \<^verbatim>\<open>mergable\<close> and the final accumulator. \<^verbatim>\<open>every\<close> stops at the first
  child for which the callback returns \<^verbatim>\<open>false\<close>.
\<close>

fun mergableEvery ::
  "ProjectionComponent option \<Rightarrow> ProjectionComponent option list \<Rightarrow>
   bool \<times> ProjectionComponent option" where
  "mergableEvery nonUnitProjection [] = (True, nonUnitProjection)"
| "mergableEvery nonUnitProjection (None # ps) = mergableEvery nonUnitProjection ps"
| "mergableEvery None (Some p # ps) = mergableEvery (Some p) ps"
| "mergableEvery (Some a) (Some p # ps) =
     (case mergeIfNoConflict a p of
        None \<Rightarrow> (False, Some a)
      | Some m \<Rightarrow> mergableEvery (Some m) ps)"

text \<open>
  The body of the promotion loop is a sequence of writes, performed in program order on
  the promoted component and on the child at hand: the push of the child's fit data
  (only for a fit-enabled child), the rename in the child's name scope, and the write
  of the child's \<^verbatim>\<open>merged\<close> flag. \<^verbatim>\<open>modelProjection.data.push\<close> raises when the promoted
  component has no data list.
\<close>

datatype Effect =
    PushData "dataRef list"
  | RenameProjection string string
  | SetMerged

definition childEffects :: "string \<Rightarrow> Model \<Rightarrow> Effect list" where
  "childEffects nm child =
     (case projection (self child) of
        None \<Rightarrow> []
      | Some p \<Rightarrow>
          (if isFit p then [PushData (case data p of None \<Rightarrow> [] | Some d \<Rightarrow> d)] else []) @
          [RenameProjection (propertyKey (Split_get p ''name'')) nm, SetMerged])"

fun applyEffect ::
  "Effect \<Rightarrow> ProjectionComponent \<times> Model \<Rightarrow> error + (ProjectionComponent \<times> Model)" where
  "applyEffect (PushData ds) (mp, child) =
     (case data mp of
        None \<Rightarrow> Inl TypeError
      | Some d \<Rightarrow> Inr (mp\<lparr>data := Some (d @ ds)\<rparr>, child))"
| "applyEffect (RenameProjection oldName newName) (mp, Model n cs) =
     Inr (mp, Model (renameProjection n oldName newName) cs)"
| "applyEffect SetMerged (mp, Model n cs) =
     Inr (mp, Model (n\<lparr>projection := map_option (\<lambda>p. p\<lparr>merged := True\<rparr>) (projection n)\<rparr>) cs)"

fun runEffects ::
  "Effect list \<Rightarrow> ProjectionComponent \<times> Model \<Rightarrow> error + (ProjectionComponent \<times> Model)" where
  "runEffects [] s = Inr s"
| "runEffects (e # es) s = (case applyEffect e s of Inl err \<Rightarrow> Inl err | Inr s' \<Rightarrow> runEffects es s')"

fun promoteLoop ::
  "string \<Rightarrow> ProjectionComponent \<Rightarrow> Model list \<Rightarrow> error + (ProjectionComponent \<times> Model list)" where
  "promoteLoop nm mp [] = Inr (mp, [])"
| "promoteLoop nm mp (child # rest) =
     (case runEffects (childEffects nm child) (mp, child) of
        Inl err \<Rightarrow> Inl err
      | Inr (mp', child') \<Rightarrow>
          (case promoteLoop nm mp' rest of
             Inl err \<Rightarrow> Inl err
           | Inr (mp'', rest') \<Rightarrow> Inr (mp'', child' # rest')))"


text \<open>
  The part of \<^verbatim>\<open>parseNonUnitProjections\<close> that follows the parsing of the children:
  the reduction and, when it succeeds, the promotion. It returns the component
  (\<open>None\<close> for \<^verbatim>\<open>undefined\<close>) and the children after the loop. \<^verbatim>\<open>duplicate\<close> of \<^verbatim>\<open>util.js\<close>
  returns a copy of its argument (of \<^verbatim>\<open>undefined\<close>, \<^verbatim>\<open>undefined\<close>), so the pushes reach
  no child's list and the model can pass the list by value.
\<close>

definition mergeChildren ::
  "Collab \<Rightarrow> ModelState \<Rightarrow> Model list \<Rightarrow> error + (ProjectionComponent option \<times> Model list)" where
  "mergeChildren c n cs =
     (case mergableEvery None (map (\<lambda>child. projection (self child)) cs) of
        (mergable, Some nonUnitProjection) \<Rightarrow>
          if mergable then
            (let nm = getName c n ''projection'';
                 modelProjection = new_ProjectionComponent nm
                    (specifiedProjection nonUnitProjection) (size_signals nonUnitProjection)
                    (data nonUnitProjection)
             in case promoteLoop nm modelProjection cs of
                  Inl err \<Rightarrow> Inl err
                | Inr (mp, cs') \<Rightarrow> Inr (Some mp, cs'))
          else Inr (None, cs)
      | (mergable, None) \<Rightarrow> Inr (None, cs))"




text \<open>\<^verbatim>\<open>parseProjection\<close> and \<^verbatim>\<open>parseNonUnitProjections\<close>; \<open>parseChildren\<close> is the loop
  \<^verbatim>\<open>for (const child of model.children) parseProjection(child)\<close>.\<close>

fun parseProjection :: "Collab \<Rightarrow> Model \<Rightarrow> error + Model"
  and parseNonUnitProjections ::
    "Collab \<Rightarrow> ModelState \<Rightarrow> Model list \<Rightarrow> error + (ProjectionComponent option \<times> Model list)"
  and parseChildren :: "Collab \<Rightarrow> Model list \<Rightarrow> error + Model list" where
  "parseProjection c (Model n cs) =
     (if isUnitModel n then
        (case parseUnitProjection c n of
           Inl err \<Rightarrow> Inl err
         | Inr (n', pc) \<Rightarrow> Inr (Model (n'\<lparr>projection := pc\<rparr>) cs))
      else
        (case parseNonUnitProjections c n cs of
           Inl err \<Rightarrow> Inl err
         | Inr (pc, cs') \<Rightarrow> Inr (Model (n\<lparr>projection := pc\<rparr>) cs')))"
| "parseNonUnitProjections c n cs =
     (if length cs = 0 then Inr (None, cs)
      else (case parseChildren c cs of
              Inl err \<Rightarrow> Inl err
            | Inr cs' \<Rightarrow> mergeChildren c n cs'))"
| "parseChildren c [] = Inr []"
| "parseChildren c (child # rest) =
     (case parseProjection c child of
        Inl err \<Rightarrow> Inl err
      | Inr child' \<Rightarrow>
          (case parseChildren c rest of
             Inl err \<Rightarrow> Inl err
           | Inr rest' \<Rightarrow> Inr (child' # rest')))"

section \<open>Assembling projections\<close>

text \<open>The source expression of one entry of a data list:
  \<^verbatim>\<open>isSignalRef(data) ? data.signal : `data('${model.lookupDataSource(data)}')`\<close>.\<close>

definition sourceOf :: "ModelState \<Rightarrow> dataRef \<Rightarrow> string" where
  "sourceOf n d =
     (case d of
        DataSignal s \<Rightarrow> s
      | DataName nm \<Rightarrow> ''data('' @ [CHR 0x27] @ lookupDataSource n nm @ [CHR 0x27] @ '')'')"

text \<open>The reduction that builds \<^verbatim>\<open>fits\<close>: a source is pushed unless
  \<^verbatim>\<open>contains(sources, source)\<close>, which is membership in the array.\<close>

definition fitSources :: "ModelState \<Rightarrow> dataRef list \<Rightarrow> string list" where
  "fitSources n ds =
     fold (\<lambda>d sources. let source = sourceOf n d
                        in if source \<in> set sources then sources else sources @ [source])
          ds []"







section \<open>Geographic point nodes\<close>

text \<open>A coordinate of a \<^verbatim>\<open>GeoPointNode\<close>: a field name or an expression reference.\<close>

datatype FieldRef = FieldName string | ExprRef string

fun truthyRef :: "FieldRef option \<Rightarrow> bool" where
  "truthyRef None = False"
| "truthyRef (Some (FieldName f)) = (f \<noteq> [])"
| "truthyRef (Some (ExprRef e)) = True"

text \<open>\<^verbatim>\<open>class GeoPointNode\<close> with its private fields; any other data-flow node is known by
  a label only.\<close>

datatype DataFlowNode =
    OtherNode string
  | GeoPointNode (gp_parent: "DataFlowNode option") (gp_projection: NameValue)
      (gp_fields: "FieldRef option \<times> FieldRef option") (gp_as: "string \<times> string")

record VgGeoPointTransform =
  t_type :: string
  t_projection :: NameValue
  t_fields :: "FieldRef option \<times> FieldRef option"
  t_as :: "string \<times> string"

text \<open>The callback of \<^verbatim>\<open>coordinates.map\<close> in \<^verbatim>\<open>GeoPointNode.parseAll\<close>.\<close>

definition coordinateRef :: "ModelState \<Rightarrow> Channel \<Rightarrow> FieldRef option" where
  "coordinateRef n channel =
     (case getFieldOrDatumDef (map_of (encoding n) channel) of
        Some (FieldDef f t) \<Rightarrow> Some (FieldName f)
      | Some (DatumDef d) \<Rightarrow> Some (ExprRef d)
      | Some (ValueDef v) \<Rightarrow> Some (ExprRef v)
      | None \<Rightarrow> None)"

definition parseAllPair ::
  "Collab \<Rightarrow> ModelState \<Rightarrow> Channel \<times> Channel \<Rightarrow> DataFlowNode \<Rightarrow> DataFlowNode" where
  "parseAllPair c n coordinates parent =
     (let pair = (coordinateRef n (fst coordinates), coordinateRef n (snd coordinates));
          suffix = (if fst coordinates = LONGITUDE2 then ''2'' else [])
      in if truthyRef (fst pair) \<or> truthyRef (snd pair)
         then GeoPointNode (Some parent)
                (case projectionName c n False of None \<Rightarrow> Name [] | Some s \<Rightarrow> s)
                pair (getName c n (''x'' @ suffix), getName c n (''y'' @ suffix))
         else parent)"

text \<open>\<^verbatim>\<open>GeoPointNode.parseAll\<close>: nothing is built when \<^verbatim>\<open>model.projectionName()\<close> is
  undefined or empty.\<close>

definition parseAll :: "Collab \<Rightarrow> DataFlowNode \<Rightarrow> ModelState \<Rightarrow> DataFlowNode" where
  "parseAll c parent n =
     (if \<not> truthyName (projectionName c n False)
      then parent
      else parseAllPair c n (LONGITUDE2, LATITUDE2) (parseAllPair c n (LONGITUDE, LATITUDE) parent))"

text \<open>\<^verbatim>\<open>GeoPointNode.assemble\<close>.\<close>

fun assemble :: "DataFlowNode \<Rightarrow> VgGeoPointTransform option" where
  "assemble (GeoPointNode p pr fs a) =
     Some \<lparr> t_type = ''geopoint'', t_projection = pr, t_fields = fs, t_as = a \<rparr>"
| "assemble (OtherNode l) = None"

section \<open>Example inputs\<close>

text \<open>
  Concrete inputs on which the theorems below are exercised: collaborators (a \<^verbatim>\<open>varName\<close>
  that leaves identifier-safe text as it is, a \<^verbatim>\<open>replaceExprRef\<close> that turns \<^verbatim>\<open>{expr: e}\<close>
  into \<^verbatim>\<open>{signal: e}\<close>, a \<^verbatim>\<open>combine\<close> that lays the explicit properties over the implicit
  ones, a \<open>memberText\<close> in the usual form), a geoshape unit view without geographic fields,
  whose name scope was seeded at construction, and a layer.
\<close>

definition exampleCollab :: Collab where
  "exampleCollab =
     \<lparr> varName = (\<lambda>s. s),
       replaceExprRef =
         map_option (map (\<lambda>(k, v). (k, case v of
                                          JObj [(a, e)] \<Rightarrow> if a = ''expr'' then JObj [(''signal'', e)] else v
                                        | _ \<Rightarrow> v))),
       combine = (\<lambda>p. spread (implicit p) (explicit p)),
       memberText = (\<lambda>k. if k = ''__proto__'' then ''[object Object]''
                         else ''function '' @ k @ ''() { [native code] }'') \<rparr>"

definition exampleUnit :: "string \<Rightarrow> bag option \<Rightarrow> ModelState" where
  "exampleUnit nm sp =
     \<lparr> mtype = UnitModel, name = nm, mark = GEOSHAPE, encoding = [],
       specifiedProjectionU = sp, config_projection = None, facetSizeRef = [],
       signalNameMap = [(nm @ ''_width'', ''width''), (nm @ ''_height'', ''height'')],
       projectionNameMap = [(nm @ ''_projection'', nm @ ''_projection'')],
       projection = Some (new_ProjectionComponent (nm @ ''_projection'') [] None None),
       outputNodeRefCounts = [], outputNodes = [] \<rparr>"

definition exampleLayer :: ModelState where
  "exampleLayer =
     \<lparr> mtype = LayerModel, name = [], mark = [], encoding = [],
       specifiedProjectionU = None, config_projection = None, facetSizeRef = [],
       signalNameMap = [(''width'', ''width''), (''height'', ''height'')],
       projectionNameMap = [], projection = None,
       outputNodeRefCounts = [], outputNodes = [] \<rparr>"



text \<open>The same unit view as the constructor leaves it when no component exists yet: the
  name scope of projections is not seeded.\<close>

definition exampleUnseededUnit :: "string \<Rightarrow> bag option \<Rightarrow> ModelState" where
  "exampleUnseededUnit nm sp = (exampleUnit nm sp)\<lparr>projectionNameMap := [], projection := None\<rparr>"

text \<open>A unit view that is not a geoshape and encodes a longitude and a latitude field.\<close>

definition exampleGeoUnit :: "string \<Rightarrow> bag option \<Rightarrow> ModelState" where
  "exampleGeoUnit nm sp =
     (exampleUnit nm sp)\<lparr>mark := ''circle'',
        encoding := [(LONGITUDE, FieldDef ''lon'' (Some ''quantitative'')),
                     (LATITUDE, FieldDef ''lat'' (Some ''quantitative''))]\<rparr>"

section \<open>Properties of the name scope\<close>

lemma NameMap_rename_idempotent:
  "NameMap_rename (NameMap_rename m a b) a b = NameMap_rename m a b"
proof (cases "truthyName (NameMap_read m a)")
  case False
  then show ?thesis by (simp add: NameMap_rename_def)
next
  case True
  show ?thesis
  proof (cases "map_of m a = None \<and> a = ''__proto__''")
    case True
    then show ?thesis by (simp add: NameMap_rename_def NameMap_assign_def)
  next
    case False
    with True have r: "NameMap_rename m a b = AList.update a b m"
      by (auto simp: NameMap_rename_def NameMap_assign_def)
    show ?thesis
      unfolding r
      by (simp add: NameMap_rename_def NameMap_assign_def NameMap_read_def update_conv')
  qed
qed



text \<open>
  Claim C9 says that, for all names \<open>A\<close> and \<open>B\<close>, \<open>rename(A, B)\<close> is idempotent, that
  \<open>rename(A, B)\<close> is a no-op when \<open>A\<close> was never registered, and that \<open>get\<close> of an unseeded
  name is \<^verbatim>\<open>undefined\<close>. Renaming is idempotent for all names, and the other two parts hold
  for every name that \<^verbatim>\<open>Object.prototype\<close> does not define (the lemmas above). The code
  breaks them at an inherited name: on a new map, in which nothing was registered,
  \<open>rename('constructor', 'x')\<close> creates the entry \<open>constructor \<mapsto> x\<close>, and
  \<open>get('constructor')\<close> yields the inherited member, not \<^verbatim>\<open>undefined\<close>.
\<close>

theorem NameMap_inherited_name_registered_by_rename:
  "NameMap_rename NameMap_new ''constructor'' ''x'' = [(''constructor'', ''x'')]
   \<and> NameMap_rename NameMap_new ''constructor'' ''x'' \<noteq> NameMap_new
   \<and> NameMap_get NameMap_new ''constructor'' = Some (InheritedMember ''constructor'')
   \<and> NameMap_get (NameMap_rename NameMap_new ''constructor'' ''x'') ''constructor'' = Some (Name ''x'')"
  by (simp add: NameMap_rename_def NameMap_read_def NameMap_get_def NameMap_assign_def
      NameMap_new_def OBJECT_PROTOTYPE_MEMBERS_def)

text \<open>The promotion loop reaches this case when a child's component carries the explicit
  name \<open>constructor\<close>: the child's scope, in which nothing was registered, ends with the
  entry \<open>constructor \<mapsto> projection\<close>.\<close>

lemma NameMap_inherited_name_reached_by_promotion:
  "projectionNameMap (self (hd (children (projr (parseProjection exampleCollab
      (Model exampleLayer
         [Model (exampleUnseededUnit ''a'' (Some [(''name'', JStr ''constructor'')])) [],
          Model (exampleUnseededUnit ''b'' (Some [(''name'', JStr ''constructor'')])) []]))))))
   = [(''constructor'', ''projection'')]"
  by code_simp

section \<open>Merging two projection components\<close>

lemma deepEqual_empty_object: "deepEqual (JObj e) (JObj []) = (e = [])"
  by (cases e) auto

lemma Split_get_explicit:
  "hasOwnProperty (explicit c) p \<Longrightarrow> Split_get c p = map_of (explicit c) p"
  by (auto simp: hasOwnProperty_def Split_get_def split: option.splits)

lemma propertyShared_iff:
  "propertyShared A B p \<longleftrightarrow>
        (\<not> hasOwnProperty (explicit A) p \<and> \<not> hasOwnProperty (explicit B) p) \<or>
        (hasOwnProperty (explicit A) p \<and> hasOwnProperty (explicit B) p \<and>
         deepEqualRead (map_of (explicit A) p) (map_of (explicit B) p))"
proof (cases "hasOwnProperty (explicit A) p \<and> hasOwnProperty (explicit B) p")
  case True
  then show ?thesis by (simp add: propertyShared_def Split_get_explicit)
next
  case False
  then show ?thesis by (auto simp add: propertyShared_def)
qed

lemma allPropertiesShared_iff:
  "allPropertiesShared A B \<longleftrightarrow>
     (\<forall>p \<in> set PROJECTION_PROPERTIES.
        (\<not> hasOwnProperty (explicit A) p \<and> \<not> hasOwnProperty (explicit B) p) \<or>
        (hasOwnProperty (explicit A) p \<and> hasOwnProperty (explicit B) p \<and>
         deepEqualRead (map_of (explicit A) p) (map_of (explicit B) p)))"
  unfolding allPropertiesShared_def list_all_iff propertyShared_iff ..

text \<open>
  Claim C1, as stated, fails: with equal sizes, a first component without explicit
  properties and a second one whose only explicit property is \<open>type\<close>, the property
  \<open>type\<close> of the fixed property set is specified on one side only, and yet the merge
  succeeds and returns the second component.
\<close>

theorem mergeIfNoConflict_one_sided_counterexample:
  "mergeIfNoConflict
     (new_ProjectionComponent ''a_projection'' []
        (Some [Some (SignalRef (Some (Name ''width''))), Some (SignalRef (Some (Name ''height'')))])
        (Some [DataName ''a_main'']))
     (new_ProjectionComponent ''b_projection'' [(''type'', JStr ''mercator'')]
        (Some [Some (SignalRef (Some (Name ''width''))), Some (SignalRef (Some (Name ''height'')))])
        (Some [DataName ''b_main'']))
   = Some (new_ProjectionComponent ''b_projection'' [(''type'', JStr ''mercator'')]
        (Some [Some (SignalRef (Some (Name ''width''))), Some (SignalRef (Some (Name ''height'')))])
        (Some [DataName ''b_main'']))
   \<and> ''type'' \<in> set PROJECTION_PROPERTIES
   \<and> \<not> hasOwnProperty (explicit (new_ProjectionComponent ''a_projection'' []
        (Some [Some (SignalRef (Some (Name ''width''))), Some (SignalRef (Some (Name ''height'')))])
        (Some [DataName ''a_main'']))) ''type''
   \<and> hasOwnProperty (explicit (new_ProjectionComponent ''b_projection'' [(''type'', JStr ''mercator'')]
        (Some [Some (SignalRef (Some (Name ''width''))), Some (SignalRef (Some (Name ''height'')))])
        (Some [DataName ''b_main'']))) ''type''"
  by (simp add: mergeIfNoConflict_def new_ProjectionComponent_def spread_def deepEqualSize_def
      allPropertiesShared_def propertyShared_def PROJECTION_PROPERTIES_def hasOwnProperty_def)

text \<open>
  Claim C1, amended. \<open>mergeIfNoConflict(A, B)\<close> returns a component iff the two sizes are
  deeply equal and either every property of the fixed property set is in neither explicit
  bag or in both with deeply equal values, or one of the two explicit bags is empty.
  On success it returns \<open>A\<close> when the property condition holds; otherwise it returns \<open>B\<close>
  when \<open>A\<close> has no explicit properties, and \<open>A\<close> when only \<open>B\<close> has none.
\<close>

theorem mergeIfNoConflict_result:
  "(mergeIfNoConflict A B \<noteq> None \<longleftrightarrow>
      deepEqualSize (size_signals A) (size_signals B) \<and>
      ((\<forall>p \<in> set PROJECTION_PROPERTIES.
          (\<not> hasOwnProperty (explicit A) p \<and> \<not> hasOwnProperty (explicit B) p) \<or>
          (hasOwnProperty (explicit A) p \<and> hasOwnProperty (explicit B) p \<and>
           deepEqualRead (map_of (explicit A) p) (map_of (explicit B) p)))
       \<or> explicit A = [] \<or> explicit B = []))
   \<and> (\<forall>r. mergeIfNoConflict A B = Some r \<longrightarrow>
        r = (if (\<forall>p \<in> set PROJECTION_PROPERTIES.
                  (\<not> hasOwnProperty (explicit A) p \<and> \<not> hasOwnProperty (explicit B) p) \<or>
                  (hasOwnProperty (explicit A) p \<and> hasOwnProperty (explicit B) p \<and>
                   deepEqualRead (map_of (explicit A) p) (map_of (explicit B) p)))
             then A else if explicit A = [] then B else A))"
  unfolding allPropertiesShared_iff [symmetric]
  by (simp add: mergeIfNoConflict_def)

theorem mergeIfNoConflict_result_witness:
  "mergeIfNoConflict
     (new_ProjectionComponent ''a_projection'' [(''type'', JStr ''mercator'')]
        (Some [Some (SignalRef (Some (Name ''width''))), Some (SignalRef (Some (Name ''height'')))])
        (Some [DataName ''a_main'']))
     (new_ProjectionComponent ''b_projection'' [(''type'', JStr ''mercator'')]
        (Some [Some (SignalRef (Some (Name ''width''))), Some (SignalRef (Some (Name ''height'')))])
        (Some [DataName ''b_main'']))
   = Some (new_ProjectionComponent ''a_projection'' [(''type'', JStr ''mercator'')]
        (Some [Some (SignalRef (Some (Name ''width''))), Some (SignalRef (Some (Name ''height'')))])
        (Some [DataName ''a_main'']))"
proof -
  let ?A = "new_ProjectionComponent ''a_projection'' [(''type'', JStr ''mercator'')]
        (Some [Some (SignalRef (Some (Name ''width''))), Some (SignalRef (Some (Name ''height'')))])
        (Some [DataName ''a_main''])"
  let ?B = "new_ProjectionComponent ''b_projection'' [(''type'', JStr ''mercator'')]
        (Some [Some (SignalRef (Some (Name ''width''))), Some (SignalRef (Some (Name ''height'')))])
        (Some [DataName ''b_main''])"
  have sz: "deepEqualSize (size_signals ?A) (size_signals ?B)"
    by (simp add: deepEqualSize_def new_ProjectionComponent_def)
  have props: "\<forall>p \<in> set PROJECTION_PROPERTIES.
          (\<not> hasOwnProperty (explicit ?A) p \<and> \<not> hasOwnProperty (explicit ?B) p) \<or>
          (hasOwnProperty (explicit ?A) p \<and> hasOwnProperty (explicit ?B) p \<and>
           deepEqualRead (map_of (explicit ?A) p) (map_of (explicit ?B) p))"
    by (simp add: PROJECTION_PROPERTIES_def new_ProjectionComponent_def spread_def
        hasOwnProperty_def)
  from sz props mergeIfNoConflict_result [of ?A ?B]
  have ex: "mergeIfNoConflict ?A ?B \<noteq> None"
    by blast
  then obtain r where r: "mergeIfNoConflict ?A ?B = Some r"
    by blast
  with props mergeIfNoConflict_result [of ?A ?B] have "r = ?A"
    by presburger
  with r show ?thesis by simp
qed

section \<open>Assembling the fit expression\<close>

lemma remdups_snoc: "remdups (ys @ [x]) = remdups (filter (\<lambda>y. y \<noteq> x) ys) @ [x]"
  by (induction ys) auto

lemma fold_push_unless_contains:
  "fold (\<lambda>x acc. if x \<in> set acc then acc else acc @ [x]) xs acc
     = acc @ rev (remdups (rev (filter (\<lambda>x. x \<notin> set acc) xs)))"
proof (induction xs arbitrary: acc)
  case Nil
  then show ?case by simp
next
  case (Cons x xs)
  show ?case
  proof (cases "x \<in> set acc")
    case True
    then show ?thesis using Cons.IH [of acc] by simp
  next
    case False
    have f: "filter (\<lambda>y. y \<notin> set (acc @ [x])) xs
               = filter (\<lambda>y. y \<noteq> x) (filter (\<lambda>y. y \<notin> set acc) xs)"
      by (induction xs) auto
    have r: "rev (remdups (rev (x # filter (\<lambda>y. y \<notin> set acc) xs)))
            = x # rev (remdups (rev (filter (\<lambda>y. y \<noteq> x) (filter (\<lambda>y. y \<notin> set acc) xs))))"
      by (simp add: remdups_snoc rev_filter)
    from False show ?thesis using Cons.IH [of "acc @ [x]"] f r by simp
  qed
qed

lemma fitSources_fold_map:
  "fold (\<lambda>d sources. let source = sourceOf n d
                        in if source \<in> set sources then sources else sources @ [source]) ds acc
   = fold (\<lambda>x acc. if x \<in> set acc then acc else acc @ [x]) (map (sourceOf n) ds) acc"
  by (induction ds arbitrary: acc) (simp_all add: Let_def)

lemma fitSources_eq: "fitSources n ds = rev (remdups (rev (map (sourceOf n) ds)))"
  unfolding fitSources_def fitSources_fold_map fold_push_unless_contains by simp


text \<open>
  Claim C10. In the list of sources from which the fit expression is formatted, every
  source expression occurs once, the expressions are those of the component's data
  list, and they stand in the order of their first occurrence there: the list is the
  data list's sources with every repetition after the first dropped (\<open>remdups\<close> keeps
  the last occurrence, so between two reversals it keeps the first).
\<close>

theorem fitSources_distinct_first_occurrence:
  "distinct (fitSources n ds)
   \<and> set (fitSources n ds) = sourceOf n ` set ds
   \<and> fitSources n ds = rev (remdups (rev (map (sourceOf n) ds)))"
  by (simp add: fitSources_eq)

theorem fitSources_distinct_first_occurrence_witness:
  "fitSources exampleLayer
     [DataName ''a_main'', DataSignal ''a_geojson_0'', DataName ''a_main'', DataName ''b_main'',
      DataSignal ''a_geojson_0'']
   = [''data('a_main')'', ''a_geojson_0'', ''data('b_main')'']
   \<and> distinct [''data('a_main')'', ''a_geojson_0'', ''data('b_main')'']"
proof -
  let ?ds = "[DataName ''a_main'', DataSignal ''a_geojson_0'', DataName ''a_main'',
              DataName ''b_main'', DataSignal ''a_geojson_0'']"
  have src: "map (sourceOf exampleLayer) ?ds
     = [''data('a_main')'', ''a_geojson_0'', ''data('a_main')'', ''data('b_main')'', ''a_geojson_0'']"
    by (simp add: sourceOf_def lookupDataSource_def exampleLayer_def)
  from fitSources_distinct_first_occurrence [of exampleLayer ?ds]
  have eq: "fitSources exampleLayer ?ds = rev (remdups (rev (map (sourceOf exampleLayer) ?ds)))"
    and d: "distinct (fitSources exampleLayer ?ds)"
    by blast+
  have v: "fitSources exampleLayer ?ds = [''data('a_main')'', ''a_geojson_0'', ''data('b_main')'']"
    unfolding eq src by simp
  from d v show ?thesis by simp
qed








section \<open>The fit-source-missing error\<close>














section \<open>Parsing the projection of a unit view\<close>

text \<open>
  Claim C3. For a unit model that has a projection, if the specified projection has a
  non-null \<open>scale\<close> or a non-null \<open>translate\<close> (one of them suffices), the parsed component
  is not fitted: its size and its data list are both undefined, whatever the encoding
  holds. (\<^verbatim>\<open>replaceExprRef\<close> is only required to keep a non-null property non-null.)
\<close>

theorem explicit_scale_or_translate_disables_fit:
  assumes "hasProjection n"
    and "specifiedProjectionU n = Some sp"
    and "notNull sp ''scale'' \<or> notNull sp ''translate''"
    and "\<forall>k. notNull sp k \<longrightarrow> (\<exists>b. replaceExprRef c (Some sp) = Some b \<and> notNull b k)"
  shows "\<exists>pc. parseUnitProjection c n = Inr (n, Some pc) \<and>
              size_signals pc = None \<and> data pc = None \<and> \<not> isFit pc"
proof -
  from assms(3,4) obtain b where b: "replaceExprRef c (Some sp) = Some b"
    and nn: "notNull b ''scale'' \<or> notNull b ''translate''"
    by blast
  let ?pc0 = "new_ProjectionComponent (getName c n ''projection'')
                (spread (bagOf (replaceExprRef c (config_projection n))) (bagOf (Some b))) None None"
  let ?pc = "if \<not> truthy (Split_get ?pc0 ''type'')
             then Split_set ?pc0 ''type'' (JStr ''equalEarth'') False else ?pc0"
  from assms(1,2) b nn have "parseUnitProjection c n = Inr (n, Some ?pc)"
    by (simp add: parseUnitProjection_def Let_def)
  moreover have "size_signals ?pc = None \<and> data ?pc = None \<and> \<not> isFit ?pc"
    by (simp add: new_ProjectionComponent_def Split_set_def isFit_def)
  ultimately show ?thesis by blast
qed

theorem explicit_scale_or_translate_disables_fit_witness:
  "\<not> isl (parseUnitProjection exampleCollab
             (exampleGeoUnit ''a'' (Some [(''scale'', JObj [(''expr'', JStr ''zoom'')])])))
   \<and> size_signals (the (snd (projr (parseUnitProjection exampleCollab
             (exampleGeoUnit ''a'' (Some [(''scale'', JObj [(''expr'', JStr ''zoom'')])])))))) = None
   \<and> data (the (snd (projr (parseUnitProjection exampleCollab
             (exampleGeoUnit ''a'' (Some [(''scale'', JObj [(''expr'', JStr ''zoom'')])])))))) = None"
proof -
  let ?sp = "[(''scale'', JObj [(''expr'', JStr ''zoom'')])]"
  let ?n = "exampleGeoUnit ''a'' (Some ?sp)"
  have h1: "hasProjection ?n"
    by (simp add: hasProjection_def exampleGeoUnit_def exampleUnit_def GEOPOSITION_CHANNELS_def)
  have h2: "specifiedProjectionU ?n = Some ?sp"
    by (simp add: exampleGeoUnit_def exampleUnit_def)
  have h3: "notNull ?sp ''scale'' \<or> notNull ?sp ''translate''"
    by (simp add: notNull_def)
  have h4: "\<forall>k. notNull ?sp k \<longrightarrow>
              (\<exists>b. replaceExprRef exampleCollab (Some ?sp) = Some b \<and> notNull b k)"
    by (simp add: notNull_def exampleCollab_def)
  from explicit_scale_or_translate_disables_fit [OF h1 h2 h3 h4]
  obtain pc where "parseUnitProjection exampleCollab ?n = Inr (?n, Some pc)"
    and "size_signals pc = None" and "data pc = None"
    by blast
  then show ?thesis by simp
qed

section \<open>Merge conflicts\<close>

lemma parseChildren_length: "parseChildren c cs = Inr cs' \<Longrightarrow> length cs' = length cs"
  by (induction cs arbitrary: cs') (auto split: sum.splits)

lemma mergableEvery_append:
  "mergableEvery acc (pre @ rest) =
     (case mergableEvery acc pre of
        (True, acc') \<Rightarrow> mergableEvery acc' rest
      | (False, acc') \<Rightarrow> (False, acc'))"
proof (induction acc pre rule: mergableEvery.induct)
  case (1 nonUnitProjection)
  then show ?case by simp
next
  case (2 nonUnitProjection ps)
  then show ?case by simp
next
  case (3 p ps)
  then show ?case by simp
next
  case (4 a p ps)
  then show ?case by (cases "mergeIfNoConflict a p") simp_all
qed

lemma mergeChildren_conflict:
  assumes "map (\<lambda>child. projection (self child)) cs = pre @ Some p # post"
    and "mergableEvery None pre = (True, Some a)"
    and "mergeIfNoConflict a p = None"
  shows "mergeChildren c n cs = Inr (None, cs)"
proof -
  from assms have "mergableEvery None (map (\<lambda>child. projection (self child)) cs) = (False, Some a)"
    by (simp add: mergableEvery_append)
  then show ?thesis by (simp add: mergeChildren_def)
qed

text \<open>
  Claim C4. When, in the reduction over the parsed children, the merge of the accumulator
  with a child's component fails, \<^verbatim>\<open>parseNonUnitProjections\<close> returns \<^verbatim>\<open>undefined\<close> without
  raising, and the children are exactly the children as their own parsing left them:
  no name scope is renamed and no component is flagged merged.
\<close>

theorem merge_conflict_keeps_children:
  assumes "\<not> isUnitModel n"
    and "parseChildren c cs = Inr cs'"
    and "map (\<lambda>child. projection (self child)) cs' = pre @ Some p # post"
    and "mergableEvery None pre = (True, Some a)"
    and "mergeIfNoConflict a p = None"
  shows "parseNonUnitProjections c n cs = Inr (None, cs')
         \<and> parseProjection c (Model n cs) = Inr (Model (n\<lparr>projection := None\<rparr>) cs')"
proof -
  from assms(3) have "cs' \<noteq> []" by auto
  with parseChildren_length [OF assms(2)] have ne: "length cs \<noteq> 0" by auto
  from mergeChildren_conflict [OF assms(3,4,5)] have "mergeChildren c n cs' = Inr (None, cs')" .
  with ne assms(2) have non: "parseNonUnitProjections c n cs = Inr (None, cs')"
    by simp
  with assms(1) have "parseProjection c (Model n cs) = Inr (Model (n\<lparr>projection := None\<rparr>) cs')"
    by simp
  with non show ?thesis by blast
qed

theorem merge_conflict_keeps_children_witness:
  "parseProjection exampleCollab
     (Model exampleLayer
        [Model (exampleUnit ''a'' (Some [(''type'', JStr ''mercator'')])) [],
         Model (exampleUnit ''b'' (Some [(''type'', JStr ''albers'')])) []])
   = Inr (Model (exampleLayer\<lparr>projection := None\<rparr>)
        [projr (parseProjection exampleCollab
                  (Model (exampleUnit ''a'' (Some [(''type'', JStr ''mercator'')])) [])),
         projr (parseProjection exampleCollab
                  (Model (exampleUnit ''b'' (Some [(''type'', JStr ''albers'')])) []))])"
proof -
  let ?A = "Model (exampleUnit ''a'' (Some [(''type'', JStr ''mercator'')])) []"
  let ?B = "Model (exampleUnit ''b'' (Some [(''type'', JStr ''albers'')])) []"
  let ?A' = "projr (parseProjection exampleCollab ?A)"
  let ?B' = "projr (parseProjection exampleCollab ?B)"
  let ?pa = "the (projection (self ?A'))"
  let ?pb = "the (projection (self ?B'))"
  have h1: "\<not> isUnitModel exampleLayer"
    by (simp add: isUnitModel_def exampleLayer_def)
  have h2: "parseChildren exampleCollab [?A, ?B] = Inr [?A', ?B']"
    by code_simp
  have h3: "map (\<lambda>child. projection (self child)) [?A', ?B'] = [Some ?pa] @ Some ?pb # []"
    by code_simp
  have h4: "mergableEvery None [Some ?pa] = (True, Some ?pa)"
    by simp
  have h5: "mergeIfNoConflict ?pa ?pb = None"
    by code_simp
  from merge_conflict_keeps_children [OF h1 h2 h3 h4 h5] show ?thesis by blast
qed

section \<open>The data list of a promoted component\<close>








section \<open>Renaming before tombstoning\<close>



















section \<open>The projection name of a geographic point node\<close>

lemma parseAllPair_projection:
  "parseAllPair c n coordinates parent \<noteq> parent \<Longrightarrow>
   parseAllPair c n coordinates parent =
     GeoPointNode (Some parent) (case projectionName c n False of None \<Rightarrow> Name [] | Some s \<Rightarrow> s)
       (coordinateRef n (fst coordinates), coordinateRef n (snd coordinates))
       (getName c n (''x'' @ (if fst coordinates = LONGITUDE2 then ''2'' else [])),
        getName c n (''y'' @ (if fst coordinates = LONGITUDE2 then ''2'' else [])))"
  by (auto simp: parseAllPair_def Let_def split: if_splits)

lemma parseAll_shape:
  assumes "parseAll c parent n \<noteq> parent"
  shows "\<exists>s q fs a. projectionName c n False = Some s \<and> truthyName (Some s) \<and>
           parseAll c parent n = GeoPointNode (Some q) s fs a \<and>
           (q = parent \<or> (\<exists>fs' a'. q = GeoPointNode (Some parent) s fs' a'))"
proof -
  from assms obtain s where s: "projectionName c n False = Some s" "truthyName (Some s)"
    by (cases "projectionName c n False") (auto simp: parseAll_def split: if_splits)
  let ?inner = "parseAllPair c n (LONGITUDE, LATITUDE) parent"
  let ?outer = "parseAllPair c n (LONGITUDE2, LATITUDE2) ?inner"
  from s have pa: "parseAll c parent n = ?outer"
    by (simp add: parseAll_def)
  show ?thesis
  proof (cases "?outer = ?inner")
    case True
    with pa assms have "?inner \<noteq> parent" by simp
    from parseAllPair_projection [OF this] s pa True show ?thesis by simp
  next
    case False
    note o = parseAllPair_projection [OF False]
    show ?thesis
    proof (cases "?inner = parent")
      case True
      with o s pa show ?thesis by simp
    next
      case False
      from parseAllPair_projection [OF False] o s pa show ?thesis by simp
    qed
  qed
qed

text \<open>
  Claim C8, as stated, fails: a node built by \<^verbatim>\<open>parseAll\<close> for a view of a layer holds the
  name \<open>a_projection\<close>; when the layer's projections are then parsed and merged, the
  view's name scope maps to \<open>projection\<close>, and the node still assembles \<open>a_projection\<close>.
\<close>

theorem geopoint_projection_stale_counterexample:
  "map_option t_projection (assemble (parseAll exampleCollab (OtherNode ''source'') (exampleGeoUnit ''a'' None)))
     = Some (Name ''a_projection'')
   \<and> \<not> isl (parseProjection exampleCollab
           (Model exampleLayer [Model (exampleGeoUnit ''a'' None) [], Model (exampleGeoUnit ''b'' None) []]))
   \<and> projectionName exampleCollab
        (self (hd (children (projr (parseProjection exampleCollab
           (Model exampleLayer [Model (exampleGeoUnit ''a'' None) [], Model (exampleGeoUnit ''b'' None) []])))))) False
     = Some (Name ''projection'')"
  by code_simp

text \<open>
  Claim C8, amended. The projection name in the assembled transform of a node built by
  \<^verbatim>\<open>parseAll\<close> is the name that \<^verbatim>\<open>model.projectionName()\<close> returned when the node was
  constructed: it is stored in the node, and \<^verbatim>\<open>assemble\<close> reads the node only, so a later
  rename of the owning projection does not reach the assembled output.
\<close>

theorem geopoint_projection_fixed_at_construction:
  assumes "parseAll c parent n \<noteq> parent"
  shows "\<exists>s t. projectionName c n False = Some s \<and>
               assemble (parseAll c parent n) = Some t \<and> t_projection t = s \<and>
               (\<forall>q. gp_parent (parseAll c parent n) = Some q \<and> q \<noteq> parent \<longrightarrow>
                    map_option t_projection (assemble q) = Some s)"
proof -
  from parseAll_shape [OF assms] obtain s q fs a
    where s: "projectionName c n False = Some s"
      and node: "parseAll c parent n = GeoPointNode (Some q) s fs a"
      and q: "q = parent \<or> (\<exists>fs' a'. q = GeoPointNode (Some parent) s fs' a')"
    by blast
  from node have "assemble (parseAll c parent n)
      = Some \<lparr> t_type = ''geopoint'', t_projection = s, t_fields = fs, t_as = a \<rparr>"
    by simp
  moreover from node q
  have "\<forall>q'. gp_parent (parseAll c parent n) = Some q' \<and> q' \<noteq> parent \<longrightarrow>
             map_option t_projection (assemble q') = Some s"
    by auto
  ultimately show ?thesis using s by auto
qed

theorem geopoint_projection_fixed_at_construction_witness:
  "map_option t_projection
     (assemble (parseAll exampleCollab (OtherNode ''source'') (exampleGeoUnit ''a'' None)))
   = projectionName exampleCollab (exampleGeoUnit ''a'' None) False
   \<and> projectionName exampleCollab (exampleGeoUnit ''a'' None) False = Some (Name ''a_projection'')"
proof -
  have built: "parseAll exampleCollab (OtherNode ''source'') (exampleGeoUnit ''a'' None)
                 \<noteq> OtherNode ''source''"
    by code_simp
  have nm: "projectionName exampleCollab (exampleGeoUnit ''a'' None) False = Some (Name ''a_projection'')"
    by code_simp
  from geopoint_projection_fixed_at_construction [OF built] nm show ?thesis
    by auto
qed

end
